theory Spec2Isabelle
  imports Main
begin

section \<open>JavaScript values\<close>

text \<open>
  The values the data-access layer handles: operation arguments, parsed JSON bodies,
  thrown errors and promise results. Numbers are the integers (fractions and NaN are not
  represented); an object is the list of its own enumerable properties in property order,
  and a property read takes the first binding of a key. Error objects carry their
  \<open>name\<close>, \<open>message\<close> and \<open>stack\<close> as properties.
\<close>

datatype jsval =
    JUndefined
  | JNull
  | JBool bool
  | JNum int
  | JStr string
  | JArr "jsval list"
  | JObj "(string \<times> jsval) list"

text \<open>The completion of a synchronous evaluation: a value, or a thrown value.\<close>

datatype 'a completion = Normal 'a | Throw jsval

text \<open>The eventual state of a promise; \<open>Pending\<close> is a promise that never settles.\<close>

datatype settled = Resolved jsval | Rejected jsval | Pending

text \<open>What a call does as seen by the caller: it hands back a value or throws synchronously.\<close>

datatype 'a call = Returns 'a | ThrowsSync jsval

definition TypeError :: "string \<Rightarrow> jsval" where
  "TypeError msg =
     JObj [(''name'', JStr ''TypeError''), (''message'', JStr msg),
           (''stack'', JStr (''TypeError: '' @ msg))]"

text \<open>JavaScript truthiness, as used by \<open>if (params)\<close> and \<open>if (payload.error)\<close>.\<close>

fun truthy :: "jsval \<Rightarrow> bool" where
  "truthy JUndefined = False"
| "truthy JNull = False"
| "truthy (JBool b) = b"
| "truthy (JNum n) = (n \<noteq> 0)"
| "truthy (JStr s) = (s \<noteq> [])"
| "truthy (JArr xs) = True"
| "truthy (JObj kvs) = True"

text \<open>
  A property read \<open>v.k\<close> for the names the source reads (\<open>error\<close>, \<open>data\<close>, \<open>name\<close>,
  \<open>stack\<close>), none of which is an index or a built-in property of arrays, strings, numbers
  or booleans: reading from \<open>undefined\<close> or \<open>null\<close> throws a TypeError, an absent
  property reads as \<open>undefined\<close>.
\<close>

fun get_prop :: "jsval \<Rightarrow> string \<Rightarrow> jsval completion" where
  "get_prop JUndefined k = Throw (TypeError (''Cannot read properties of undefined''))"
| "get_prop JNull k = Throw (TypeError (''Cannot read properties of null''))"
| "get_prop (JObj kvs) k = Normal (case map_of kvs k of None \<Rightarrow> JUndefined | Some v \<Rightarrow> v)"
| "get_prop (JBool b) k = Normal JUndefined"
| "get_prop (JNum n) k = Normal JUndefined"
| "get_prop (JStr s) k = Normal JUndefined"
| "get_prop (JArr xs) k = Normal JUndefined"

subsection \<open>String forms\<close>

definition digit_char :: "nat \<Rightarrow> char" where
  "digit_char d = ''0123456789'' ! (d mod 10)"

fun show_nat :: "nat \<Rightarrow> string" where
  "show_nat n = (if n < 10 then [digit_char n] else show_nat (n div 10) @ [digit_char (n mod 10)])"

definition show_int :: "int \<Rightarrow> string" where
  "show_int i = (if i < 0 then ''-'' @ show_nat (nat (- i)) else show_nat (nat i))"

text \<open>
  The abstract operation ToString, as a template literal applies it. An object whose own
  \<open>toString\<close> property is not callable (no value here is) cannot be converted; an array is
  joined with commas, \<open>undefined\<close> and \<open>null\<close> elements giving the empty string.
\<close>

fun ToString :: "jsval \<Rightarrow> string completion"
  and join_elements :: "jsval list \<Rightarrow> string completion" where
  "ToString JUndefined = Normal ''undefined''"
| "ToString JNull = Normal ''null''"
| "ToString (JBool b) = Normal (if b then ''true'' else ''false'')"
| "ToString (JNum n) = Normal (show_int n)"
| "ToString (JStr s) = Normal s"
| "ToString (JArr xs) = join_elements xs"
| "ToString (JObj kvs) =
     (if ''toString'' \<in> set (map fst kvs)
      then Throw (TypeError ''Cannot convert object to primitive value'')
      else Normal ''[object Object]'')"
| "join_elements [] = Normal ''''"
| "join_elements (x # xs) =
     (case (if x = JUndefined \<or> x = JNull then Normal '''' else ToString x) of
        Throw e \<Rightarrow> Throw e
      | Normal s \<Rightarrow>
          (if xs = [] then Normal s
           else (case join_elements xs of
                   Throw e \<Rightarrow> Throw e
                 | Normal t \<Rightarrow> Normal (s @ '','' @ t))))"

text \<open>The method call \<open>value.toString()\<close>: there is no method to call on \<open>undefined\<close> or \<open>null\<close>.\<close>

definition toString_method :: "jsval \<Rightarrow> string completion" where
  "toString_method v =
     (case v of
        JUndefined \<Rightarrow> Throw (TypeError ''Cannot read properties of undefined (reading toString)'')
      | JNull \<Rightarrow> Throw (TypeError ''Cannot read properties of null (reading toString)'')
      | _ \<Rightarrow> ToString v)"

text \<open>
  \<open>Object.entries\<close>: the own enumerable string-keyed properties; the indices of an array or
  of a string, nothing for a number or a boolean.
\<close>

fun Object_entries :: "jsval \<Rightarrow> (string \<times> jsval) list completion" where
  "Object_entries JUndefined = Throw (TypeError ''Cannot convert undefined or null to object'')"
| "Object_entries JNull = Throw (TypeError ''Cannot convert undefined or null to object'')"
| "Object_entries (JObj kvs) = Normal kvs"
| "Object_entries (JArr xs) = Normal (zip (map show_nat [0..<length xs]) xs)"
| "Object_entries (JStr s) = Normal (zip (map show_nat [0..<length s]) (map (\<lambda>c. JStr [c]) s))"
| "Object_entries (JBool b) = Normal []"
| "Object_entries (JNum n) = Normal []"

section \<open>The platform\<close>

text \<open>
  A \<open>URL\<close> object: the parsed address and the name-value pairs of its query, the list that
  \<open>url.searchParams\<close> shows and \<open>append\<close> extends at its end.
\<close>

record url =
  address :: string
  searchParams :: "(string \<times> string) list"

text \<open>The first argument of \<open>fetch\<close>: a string, or a \<open>URL\<close> object.\<close>

datatype url_arg = UrlString string | UrlObject url

record options =
  headers :: "(string \<times> string) list"
  signal :: jsval
  "method" :: string
  body :: "string option"

text \<open>A response: its status code and what awaiting \<open>response.json()\<close> gives.\<close>

record response =
  status :: int
  json :: settled

datatype fetch_result = FetchResolved response | FetchRejected jsval | FetchPending

text \<open>
  What the module takes from its surroundings: the environment variable, \<open>fetch\<close>, the
  \<open>URL\<close> constructor, \<open>JSON.stringify\<close>, and the two formatting functions it imports from
  \<open>./format-reservation-date\<close> and \<open>./format-reservation-time\<close>.
\<close>

record platform =
  REACT_APP_API_BASE_URL :: "string option"
  fetch :: "url_arg \<Rightarrow> options \<Rightarrow> fetch_result"
  URL_new :: "string \<Rightarrow> url completion"
  JSON_stringify :: "jsval \<Rightarrow> string completion"
  formatReservationDate :: "jsval \<Rightarrow> jsval completion"
  formatReservationTime :: "jsval \<Rightarrow> jsval completion"

text \<open>The observable steps of a run, in order.\<close>

datatype event =
    Fetch url_arg options
  | ResponseJson
  | ConsoleError jsval
  | FormatReservationDate jsval
  | FormatReservationTime jsval

section \<open>The transport core\<close>

definition API_BASE_URL :: "platform \<Rightarrow> string" where
  "API_BASE_URL P =
     (case REACT_APP_API_BASE_URL P of
        None \<Rightarrow> ''http://localhost:5000''
      | Some s \<Rightarrow> if s \<noteq> [] then s else ''http://localhost:5000'')"

definition default_headers :: "(string \<times> string) list" where
  "default_headers = [(''Content-Type'', ''application/json'')]"

text \<open>
  The \<open>catch\<close> block of \<open>fetchJson\<close>: an error whose name is not \<open>AbortError\<close> is logged with
  its stack and thrown again, any other resolves to \<open>onCancel\<close>. Reading \<open>error.name\<close> of
  \<open>undefined\<close> or \<open>null\<close> throws inside the handler.
\<close>

definition on_catch :: "jsval \<Rightarrow> jsval \<Rightarrow> settled \<times> event list" where
  "on_catch error onCancel =
     (case get_prop error ''name'' of
        Throw e \<Rightarrow> (Rejected e, [])
      | Normal n \<Rightarrow>
          if n \<noteq> JStr ''AbortError'' then
            (case get_prop error ''stack'' of
               Throw e \<Rightarrow> (Rejected e, [])
             | Normal s \<Rightarrow> (Rejected error, [ConsoleError s]))
          else (Resolved onCancel, []))"

definition after :: "event list \<Rightarrow> settled \<times> event list \<Rightarrow> settled \<times> event list" where
  "after es p = (fst p, es @ snd p)"

text \<open>
  \<open>fetchJson\<close> is an async function: a call never throws, and the result is the state its
  promise settles in. \<open>return Promise.reject(...)\<close> is not awaited inside the \<open>try\<close>, so the
  \<open>catch\<close> block does not see that rejection.
\<close>

definition fetchJson :: "platform \<Rightarrow> url_arg \<Rightarrow> options \<Rightarrow> jsval \<Rightarrow> settled \<times> event list" where
  "fetchJson P url opts onCancel =
     (case fetch P url opts of
        FetchPending \<Rightarrow> (Pending, [Fetch url opts])
      | FetchRejected error \<Rightarrow> after [Fetch url opts] (on_catch error onCancel)
      | FetchResolved response \<Rightarrow>
          if status response = 204 then (Resolved JNull, [Fetch url opts])
          else
            (case json response of
               Pending \<Rightarrow> (Pending, [Fetch url opts, ResponseJson])
             | Rejected error \<Rightarrow> after [Fetch url opts, ResponseJson] (on_catch error onCancel)
             | Resolved payload \<Rightarrow>
                 (case get_prop payload ''error'' of
                    Throw error \<Rightarrow> after [Fetch url opts, ResponseJson] (on_catch error onCancel)
                  | Normal err \<Rightarrow>
                      if truthy err
                      then (Rejected (JObj [(''message'', err)]), [Fetch url opts, ResponseJson])
                      else
                        (case get_prop payload ''data'' of
                           Throw error \<Rightarrow>
                             after [Fetch url opts, ResponseJson] (on_catch error onCancel)
                         | Normal d \<Rightarrow> (Resolved d, [Fetch url opts, ResponseJson])))))"

section \<open>The operation catalog\<close>

text \<open>
  An async function turns a throw in its body into a rejection of the promise it returns.
  A body here throws only before its request is sent, so a throwing body has no events.
\<close>

definition async_function :: "(settled \<times> event list) completion \<Rightarrow> settled call \<times> event list" where
  "async_function b =
     (case b of
        Throw e \<Rightarrow> (Returns (Rejected e), [])
      | Normal p \<Rightarrow> (Returns (fst p), snd p))"

text \<open>
  \<open>promise.then(f)\<close>: \<open>f\<close> is called with the value of a resolved promise, and a throw of \<open>f\<close>
  rejects the result; a rejected or pending promise passes through and \<open>f\<close> is not called.
  \<open>ev\<close> is the event recording the call.
\<close>

definition then_call ::
  "settled \<times> event list \<Rightarrow> (jsval \<Rightarrow> event) \<Rightarrow> (jsval \<Rightarrow> jsval completion) \<Rightarrow> settled \<times> event list" where
  "then_call p ev f =
     (case fst p of
        Resolved v \<Rightarrow>
          (case f v of
             Normal w \<Rightarrow> (Resolved w, snd p @ [ev v])
           | Throw e \<Rightarrow> (Rejected e, snd p @ [ev v]))
      | Rejected e \<Rightarrow> p
      | Pending \<Rightarrow> p)"

text \<open>
  The \<open>forEach\<close> over the entries of \<open>params\<close>: each value's \<open>toString()\<close> is appended under
  its key; the first throw ends the loop.
\<close>

fun append_entries :: "url \<Rightarrow> (string \<times> jsval) list \<Rightarrow> url completion" where
  "append_entries u [] = Normal u"
| "append_entries u (kv # rest) =
     (case toString_method (snd kv) of
        Throw e \<Rightarrow> Throw e
      | Normal s \<Rightarrow> append_entries (u\<lparr>searchParams := searchParams u @ [(fst kv, s)]\<rparr>) rest)"

text \<open>The URL that \<open>listReservations\<close> builds before it calls \<open>fetchJson\<close>.\<close>

definition reservations_url :: "platform \<Rightarrow> jsval \<Rightarrow> url completion" where
  "reservations_url P params =
     (case URL_new P (API_BASE_URL P @ ''/reservations'') of
        Throw e \<Rightarrow> Throw e
      | Normal u \<Rightarrow>
          if truthy params then
            (case Object_entries params of
               Throw e \<Rightarrow> Throw e
             | Normal es \<Rightarrow> append_entries u es)
          else Normal u)"

definition listReservations :: "platform \<Rightarrow> jsval \<Rightarrow> jsval \<Rightarrow> settled call \<times> event list" where
  "listReservations P params sig =
     async_function
       (case reservations_url P params of
          Throw e \<Rightarrow> Throw e
        | Normal u \<Rightarrow>
            Normal
              (then_call
                 (then_call
                    (fetchJson P (UrlObject u)
                       \<lparr>headers = default_headers, signal = sig, method = ''GET'', body = None\<rparr>
                       (JArr []))
                    FormatReservationDate (formatReservationDate P))
                 FormatReservationTime (formatReservationTime P)))"

definition createReservation :: "platform \<Rightarrow> jsval \<Rightarrow> jsval \<Rightarrow> settled call \<times> event list" where
  "createReservation P reservation sig =
     async_function
       (case JSON_stringify P (JObj [(''data'', reservation)]) of
          Throw e \<Rightarrow> Throw e
        | Normal b \<Rightarrow>
            Normal
              (fetchJson P (UrlString (API_BASE_URL P @ ''/reservations''))
                 \<lparr>headers = default_headers, signal = sig, method = ''POST'', body = Some b\<rparr>
                 (JArr [])))"

definition listTables :: "platform \<Rightarrow> jsval \<Rightarrow> settled call \<times> event list" where
  "listTables P sig =
     async_function
       (Normal
          (fetchJson P (UrlString (API_BASE_URL P @ ''/tables''))
             \<lparr>headers = default_headers, signal = sig, method = ''GET'', body = None\<rparr>
             (JArr [])))"

definition createTable :: "platform \<Rightarrow> jsval \<Rightarrow> jsval \<Rightarrow> settled call \<times> event list" where
  "createTable P table sig =
     async_function
       (case JSON_stringify P (JObj [(''data'', table)]) of
          Throw e \<Rightarrow> Throw e
        | Normal b \<Rightarrow>
            Normal
              (fetchJson P (UrlString (API_BASE_URL P @ ''/tables''))
                 \<lparr>headers = default_headers, signal = sig, method = ''POST'', body = Some b\<rparr>
                 (JArr [])))"

definition editReservation ::
  "platform \<Rightarrow> jsval \<Rightarrow> jsval \<Rightarrow> jsval \<Rightarrow> settled call \<times> event list" where
  "editReservation P reservation_id reservation sig =
     async_function
       (case ToString reservation_id of
          Throw e \<Rightarrow> Throw e
        | Normal rid \<Rightarrow>
            (case JSON_stringify P (JObj [(''data'', reservation)]) of
               Throw e \<Rightarrow> Throw e
             | Normal b \<Rightarrow>
                 Normal
                   (fetchJson P (UrlString (API_BASE_URL P @ ''/reservations/'' @ rid))
                      \<lparr>headers = default_headers, signal = sig, method = ''PUT'', body = Some b\<rparr>
                      (JArr []))))"

definition updateReservationStatus ::
  "platform \<Rightarrow> jsval \<Rightarrow> jsval \<Rightarrow> jsval \<Rightarrow> settled call \<times> event list" where
  "updateReservationStatus P reservation_id st sig =
     async_function
       (case ToString reservation_id of
          Throw e \<Rightarrow> Throw e
        | Normal rid \<Rightarrow>
            (case JSON_stringify P (JObj [(''data'', JObj [(''status'', st)])]) of
               Throw e \<Rightarrow> Throw e
             | Normal b \<Rightarrow>
                 Normal
                   (fetchJson P
                      (UrlString (API_BASE_URL P @ ''/reservations/'' @ rid @ ''/status''))
                      \<lparr>headers = default_headers, signal = sig, method = ''PUT'', body = Some b\<rparr>
                      (JArr []))))"

definition seatReservation ::
  "platform \<Rightarrow> jsval \<Rightarrow> jsval \<Rightarrow> jsval \<Rightarrow> settled call \<times> event list" where
  "seatReservation P reservation_id table_id sig =
     async_function
       (case ToString table_id of
          Throw e \<Rightarrow> Throw e
        | Normal tid \<Rightarrow>
            (case JSON_stringify P (JObj [(''data'', JObj [(''reservation_id'', reservation_id)])]) of
               Throw e \<Rightarrow> Throw e
             | Normal b \<Rightarrow>
                 Normal
                   (fetchJson P (UrlString (API_BASE_URL P @ ''/tables/'' @ tid @ ''/seat''))
                      \<lparr>headers = default_headers, signal = sig, method = ''PUT'', body = Some b\<rparr>
                      (JArr []))))"

definition finishTable :: "platform \<Rightarrow> jsval \<Rightarrow> jsval \<Rightarrow> settled call \<times> event list" where
  "finishTable P table_id sig =
     async_function
       (case ToString table_id of
          Throw e \<Rightarrow> Throw e
        | Normal tid \<Rightarrow>
            Normal
              (fetchJson P (UrlString (API_BASE_URL P @ ''/tables/'' @ tid @ ''/seat''))
                 \<lparr>headers = default_headers, signal = sig, method = ''DELETE'', body = None\<rparr>
                 (JArr [])))"

text \<open>The module's exports: a caller picks one of them and supplies its arguments.\<close>

datatype operation =
    ListReservations jsval jsval
  | CreateReservation jsval jsval
  | ListTables jsval
  | CreateTable jsval jsval
  | EditReservation jsval jsval jsval
  | UpdateReservationStatus jsval jsval jsval
  | SeatReservation jsval jsval jsval
  | FinishTable jsval jsval

definition invoke :: "platform \<Rightarrow> operation \<Rightarrow> settled call \<times> event list" where
  "invoke P operation =
     (case operation of
        ListReservations params sig \<Rightarrow> listReservations P params sig
      | CreateReservation reservation sig \<Rightarrow> createReservation P reservation sig
      | ListTables sig \<Rightarrow> listTables P sig
      | CreateTable table sig \<Rightarrow> createTable P table sig
      | EditReservation reservation_id reservation sig \<Rightarrow>
          editReservation P reservation_id reservation sig
      | UpdateReservationStatus reservation_id st sig \<Rightarrow>
          updateReservationStatus P reservation_id st sig
      | SeatReservation reservation_id table_id sig \<Rightarrow>
          seatReservation P reservation_id table_id sig
      | FinishTable table_id sig \<Rightarrow> finishTable P table_id sig)"

definition is_list_reservations :: "operation \<Rightarrow> bool" where
  "is_list_reservations operation =
     (case operation of ListReservations params sig \<Rightarrow> True | _ \<Rightarrow> False)"

section \<open>The imported formatters and a platform for worked examples\<close>

text \<open>
  Modelled from the spec: the files \<open>format-reservation-date\<close> and
  \<open>format-reservation-time\<close>, which the module imports, are not among the sources at hand.
  The spec calls them pure functions that normalise the date and the time of the
  reservations they are given (date normalization, then time normalization). These
  instances keep the first ten characters of \<open>reservation_date\<close> (the calendar date) and
  the first five of \<open>reservation_time\<close> (hours and minutes), in one reservation or in each
  reservation of an array. The operations take the formatters from the platform; these
  instances only fill it in where a concrete run is evaluated.
\<close>

definition normalise_field :: "string \<Rightarrow> nat \<Rightarrow> jsval \<Rightarrow> jsval" where
  "normalise_field k n reservation =
     (case reservation of
        JObj kvs \<Rightarrow>
          JObj (map (\<lambda>kv. if fst kv = k
                          then (k, case snd kv of JStr s \<Rightarrow> JStr (take n s) | v \<Rightarrow> v)
                          else kv) kvs)
      | v \<Rightarrow> v)"

definition spec_formatReservationDate :: "jsval \<Rightarrow> jsval completion" where
  "spec_formatReservationDate reservations =
     Normal (case reservations of
               JArr rs \<Rightarrow> JArr (map (normalise_field ''reservation_date'' 10) rs)
             | r \<Rightarrow> normalise_field ''reservation_date'' 10 r)"

definition spec_formatReservationTime :: "jsval \<Rightarrow> jsval completion" where
  "spec_formatReservationTime reservations =
     Normal (case reservations of
               JArr rs \<Rightarrow> JArr (map (normalise_field ''reservation_time'' 5) rs)
             | r \<Rightarrow> normalise_field ''reservation_time'' 5 r)"

text \<open>
  A platform for the worked examples: no environment override, a \<open>fetch\<close> that answers
  every request with the given result, a \<open>URL\<close> constructor that accepts its argument and
  finds no query in it, and a \<open>JSON.stringify\<close> that does not throw.
\<close>

definition example_platform :: "fetch_result \<Rightarrow> platform" where
  "example_platform answer =
     \<lparr>REACT_APP_API_BASE_URL = None,
      fetch = (\<lambda>u opts. answer),
      URL_new = (\<lambda>s. Normal \<lparr>address = s, searchParams = []\<rparr>),
      JSON_stringify = (\<lambda>v. Normal ''{}''),
      formatReservationDate = spec_formatReservationDate,
      formatReservationTime = spec_formatReservationTime\<rparr>"

definition example_options :: options where
  "example_options =
     \<lparr>headers = default_headers, signal = JUndefined, method = ''GET'', body = None\<rparr>"

definition AbortError :: jsval where
  "AbortError =
     JObj [(''name'', JStr ''AbortError''), (''message'', JStr ''The user aborted a request.''),
           (''stack'', JStr ''AbortError: The user aborted a request.'')]"

text \<open>The calls of the formatting functions among the events of a run.\<close>

fun is_format_call :: "event \<Rightarrow> bool" where
  "is_format_call (FormatReservationDate v) = True"
| "is_format_call (FormatReservationTime v) = True"
| "is_format_call (Fetch u opts) = False"
| "is_format_call ResponseJson = False"
| "is_format_call (ConsoleError s) = False"

text \<open>
  The two \<open>then\<close> steps of \<open>listReservations\<close> applied to a value: the date formatter, then
  the time formatter on its result, a throw of either rejecting the promise.
\<close>

definition formatted :: "platform \<Rightarrow> jsval \<Rightarrow> settled" where
  "formatted P v =
     (case formatReservationDate P v of
        Throw e \<Rightarrow> Rejected e
      | Normal d \<Rightarrow>
          (case formatReservationTime P d of
             Throw e \<Rightarrow> Rejected e
           | Normal t \<Rightarrow> Resolved t))"

definition format_calls :: "platform \<Rightarrow> jsval \<Rightarrow> event list" where
  "format_calls P v =
     FormatReservationDate v #
     (case formatReservationDate P v of
        Throw e \<Rightarrow> []
      | Normal d \<Rightarrow> [FormatReservationTime d])"

section \<open>Properties\<close>

subsection \<open>The transport core and the shape of the operations\<close>

text \<open>
  The first event of every run of \<open>fetchJson\<close> is its call of \<open>fetch\<close>, and an operation
  has no event before it calls \<open>fetchJson\<close>: an operation has sent its request exactly when
  its events are not empty.
\<close>

lemma fetchJson_no_format_call: "filter is_format_call (snd (fetchJson P u opts c)) = []"
  by (auto simp: fetchJson_def after_def on_catch_def
      split: fetch_result.splits settled.splits completion.splits if_splits)

lemma fetchJson_starts_with_Fetch: "\<exists>rest. snd (fetchJson P u opts c) = Fetch u opts # rest"
  by (auto simp: fetchJson_def after_def
      split: fetch_result.splits settled.splits completion.splits if_splits)

lemma fetchJson_status_204:
  assumes "fetch P u opts = FetchResolved r" and "status r = 204"
  shows "fetchJson P u opts c = (Resolved JNull, [Fetch u opts])"
  using assms by (simp add: fetchJson_def)

lemma fetchJson_payload:
  assumes "fetch P u opts = FetchResolved r" and "status r \<noteq> 204"
    and "json r = Resolved payload" and "get_prop payload ''error'' = Normal err"
  shows "truthy err \<Longrightarrow>
           fetchJson P u opts c = (Rejected (JObj [(''message'', err)]), [Fetch u opts, ResponseJson])"
    and "\<not> truthy err \<Longrightarrow> get_prop payload ''data'' = Normal d \<Longrightarrow>
           fetchJson P u opts c = (Resolved d, [Fetch u opts, ResponseJson])"
  using assms by (simp_all add: fetchJson_def)

lemma on_catch_abort:
  assumes "get_prop err ''name'' = Normal (JStr ''AbortError'')"
  shows "on_catch err c = (Resolved c, [])"
  using assms by (simp add: on_catch_def)

lemma on_catch_other:
  assumes "get_prop err ''name'' = Normal n" and "n \<noteq> JStr ''AbortError''"
  shows "\<exists>s. get_prop err ''stack'' = Normal s \<and> on_catch err c = (Rejected err, [ConsoleError s])"
  using assms by (cases err) (simp_all add: on_catch_def)

lemma fetchJson_fetch_rejected:
  assumes "fetch P u opts = FetchRejected err"
  shows "fetchJson P u opts c = after [Fetch u opts] (on_catch err c)"
  using assms by (simp add: fetchJson_def)

lemma fetchJson_json_rejected:
  assumes "fetch P u opts = FetchResolved r" and "status r \<noteq> 204" and "json r = Rejected err"
  shows "fetchJson P u opts c = after [Fetch u opts, ResponseJson] (on_catch err c)"
  using assms by (simp add: fetchJson_def)

lemma then_call_rejected: "fst p = Rejected e \<Longrightarrow> then_call p ev f = p"
  by (simp add: then_call_def)

lemma then_call_pending: "fst p = Pending \<Longrightarrow> then_call p ev f = p"
  by (simp add: then_call_def)

lemma pipeline_resolved:
  assumes "fst p = Resolved v"
  shows "then_call (then_call p FormatReservationDate (formatReservationDate P))
           FormatReservationTime (formatReservationTime P)
         = (formatted P v, snd p @ format_calls P v)"
  using assms by (simp add: then_call_def formatted_def format_calls_def split: completion.splits)

lemma listReservations_not_built:
  assumes "reservations_url P params = Throw e"
  shows "listReservations P params sig = (Returns (Rejected e), [])"
  using assms by (simp add: listReservations_def async_function_def)

lemma listReservations_built:
  assumes "reservations_url P params = Normal u"
  shows "listReservations P params sig =
     (let p = then_call
                 (then_call
                    (fetchJson P (UrlObject u)
                       \<lparr>headers = default_headers, signal = sig, method = ''GET'', body = None\<rparr>
                       (JArr []))
                    FormatReservationDate (formatReservationDate P))
                 FormatReservationTime (formatReservationTime P)
      in (Returns (fst p), snd p))"
  using assms by (simp add: listReservations_def async_function_def Let_def)

lemma invoke_forwards:
  assumes "\<not> is_list_reservations operation"
  shows "(\<exists>e. invoke P operation = (Returns (Rejected e), [])) \<or>
         (\<exists>u opts. invoke P operation =
            (Returns (fst (fetchJson P u opts (JArr []))), snd (fetchJson P u opts (JArr []))))"
proof (cases operation)
  case (ListReservations params sig)
  with assms show ?thesis by (simp add: is_list_reservations_def)
next
  case (CreateReservation reservation sig)
  then show ?thesis
    by (cases "JSON_stringify P (JObj [(''data'', reservation)])")
       (auto simp: invoke_def createReservation_def async_function_def)
next
  case (ListTables sig)
  then show ?thesis
    by (auto simp: invoke_def listTables_def async_function_def)
next
  case (CreateTable table sig)
  then show ?thesis
    by (cases "JSON_stringify P (JObj [(''data'', table)])")
       (auto simp: invoke_def createTable_def async_function_def)
next
  case (EditReservation reservation_id reservation sig)
  then show ?thesis
    by (cases "ToString reservation_id"; cases "JSON_stringify P (JObj [(''data'', reservation)])")
       (auto simp: invoke_def editReservation_def async_function_def)
next
  case (UpdateReservationStatus reservation_id st sig)
  then show ?thesis
    by (cases "ToString reservation_id";
        cases "JSON_stringify P (JObj [(''data'', JObj [(''status'', st)])])")
       (auto simp: invoke_def updateReservationStatus_def async_function_def)
next
  case (SeatReservation reservation_id table_id sig)
  then show ?thesis
    by (cases "ToString table_id";
        cases "JSON_stringify P (JObj [(''data'', JObj [(''reservation_id'', reservation_id)])])")
       (auto simp: invoke_def seatReservation_def async_function_def)
next
  case (FinishTable table_id sig)
  then show ?thesis
    by (cases "ToString table_id") (auto simp: invoke_def finishTable_def async_function_def)
qed

lemma invoke_sent:
  assumes "\<not> is_list_reservations operation" and "snd (invoke P operation) \<noteq> []"
  shows "\<exists>u opts. invoke P operation =
            (Returns (fst (fetchJson P u opts (JArr []))), snd (fetchJson P u opts (JArr [])))"
  using invoke_forwards [OF assms(1), of P] assms(2) by auto

lemma listReservations_sent:
  assumes "snd (listReservations P params sig) \<noteq> []"
  shows "\<exists>u. reservations_url P params = Normal u"
  using assms by (cases "reservations_url P params") (simp_all add: listReservations_not_built)

lemma append_entries_all:
  assumes "list_all2 (\<lambda>kv s. toString_method (snd kv) = Normal s) es strs"
  shows "append_entries u es = Normal (u\<lparr>searchParams := searchParams u @ zip (map fst es) strs\<rparr>)"
  using assms by (induction es strs arbitrary: u rule: list_all2_induct) simp_all

lemma append_entries_first_throw:
  assumes "list_all2 (\<lambda>kv s. toString_method (snd kv) = Normal s) pre strs"
    and "toString_method v = Throw e"
  shows "append_entries u (pre @ (k, v) # post) = Throw e"
  using assms by (induction pre strs arbitrary: u rule: list_all2_induct) simp_all

lemma append_entries_nullish:
  assumes "(k, JNull) \<in> set es \<or> (k, JUndefined) \<in> set es"
  shows "\<exists>e. append_entries u es = Throw e"
  using assms
proof (induction es arbitrary: u)
  case Nil
  then show ?case by simp
next
  case (Cons kv es)
  show ?case
  proof (cases "toString_method (snd kv)")
    case (Throw e)
    then show ?thesis by simp
  next
    case (Normal s)
    with Cons.prems have "(k, JNull) \<in> set es \<or> (k, JUndefined) \<in> set es"
      by (auto simp: toString_method_def)
    from Cons.IH [OF this] Normal show ?thesis by simp
  qed
qed

lemma listReservations_rejected:
  assumes "reservations_url P params = Normal u"
    and "fst (fetchJson P (UrlObject u)
           \<lparr>headers = default_headers, signal = sig, method = ''GET'', body = None\<rparr> (JArr []))
         = Rejected e"
  shows "listReservations P params sig =
         (Returns (Rejected e), snd (fetchJson P (UrlObject u)
           \<lparr>headers = default_headers, signal = sig, method = ''GET'', body = None\<rparr> (JArr [])))"
  using assms by (simp add: listReservations_built then_call_rejected)

lemma listReservations_resolved:
  assumes "reservations_url P params = Normal u"
    and "fst (fetchJson P (UrlObject u)
           \<lparr>headers = default_headers, signal = sig, method = ''GET'', body = None\<rparr> (JArr []))
         = Resolved v"
  shows "listReservations P params sig =
         (Returns (formatted P v), snd (fetchJson P (UrlObject u)
           \<lparr>headers = default_headers, signal = sig, method = ''GET'', body = None\<rparr> (JArr []))
           @ format_calls P v)"
  using assms by (simp add: listReservations_built pipeline_resolved)

lemma example_platform_fetch: "fetch (example_platform answer) u opts = answer"
  by (simp add: example_platform_def)

lemma example_platform_formatters:
  "formatReservationDate (example_platform answer) = spec_formatReservationDate"
  "formatReservationTime (example_platform answer) = spec_formatReservationTime"
  by (simp_all add: example_platform_def)

lemma example_reservations_url_plain:
  "reservations_url (example_platform answer) JUndefined
     = Normal \<lparr>address = ''http://localhost:5000/reservations'', searchParams = []\<rparr>"
  by (simp add: reservations_url_def example_platform_def API_BASE_URL_def)

lemma example_reservations_url_date:
  "reservations_url (example_platform answer) (JObj [(''date'', JStr ''2023-05-01'')])
     = Normal \<lparr>address = ''http://localhost:5000/reservations'',
               searchParams = [(''date'', ''2023-05-01'')]\<rparr>"
  by (simp add: reservations_url_def example_platform_def API_BASE_URL_def toString_method_def)

lemma listTables_sent: "snd (invoke P (ListTables sig)) \<noteq> []"
  using fetchJson_starts_with_Fetch [of P]
  by (simp add: invoke_def listTables_def async_function_def) (metis list.distinct(1))

lemma listReservations_plain_sent:
  "snd (listReservations (example_platform answer) JUndefined sig) \<noteq> []"
proof -
  let ?P = "example_platform answer"
  let ?p = "fetchJson ?P
      (UrlObject \<lparr>address = ''http://localhost:5000/reservations'', searchParams = []\<rparr>)
      \<lparr>headers = default_headers, signal = sig, method = ''GET'', body = None\<rparr> (JArr [])"
  from fetchJson_starts_with_Fetch obtain rest where "snd ?p = Fetch
      (UrlObject \<lparr>address = ''http://localhost:5000/reservations'', searchParams = []\<rparr>)
      \<lparr>headers = default_headers, signal = sig, method = ''GET'', body = None\<rparr> # rest"
    by blast
  then show ?thesis
    by (simp add: listReservations_built [OF example_reservations_url_plain] Let_def then_call_def
        split: settled.splits completion.splits)
qed

subsection \<open>The claims\<close>

text \<open>
  Claim C1, as amended. A response whose status is not 204 and whose parsed body has a
  non-empty string \<open>error\<close> field makes \<open>fetchJson\<close> reject with the object
  \<open>{message: error}\<close>, whatever else the status is; and when every request is answered so,
  every operation that sent its request rejects with that object. The claim as stated
  reaches over every status: at status 204 the body is never read and the promise
  resolves to \<open>null\<close>, as the counterexample below evaluates.
\<close>

theorem C1_error_envelope_rejects:
  assumes "status r \<noteq> 204" and "json r = Resolved (JObj kvs)"
    and "map_of kvs ''error'' = Some (JStr x)" and "x \<noteq> []"
  shows "(fetch P u opts = FetchResolved r \<longrightarrow>
            fetchJson P u opts c =
              (Rejected (JObj [(''message'', JStr x)]), [Fetch u opts, ResponseJson]))
       \<and> ((\<forall>u opts. fetch P u opts = FetchResolved r) \<longrightarrow>
            (\<forall>operation. snd (invoke P operation) \<noteq> [] \<longrightarrow>
               fst (invoke P operation) = Returns (Rejected (JObj [(''message'', JStr x)]))))"
proof -
  have core: "fetchJson P u opts c =
      (Rejected (JObj [(''message'', JStr x)]), [Fetch u opts, ResponseJson])"
    if "fetch P u opts = FetchResolved r" for u opts c
    using fetchJson_payload(1) [OF that assms(1,2), of "JStr x"] assms(3,4) by simp
  have ops: "fst (invoke P operation) = Returns (Rejected (JObj [(''message'', JStr x)]))"
    if all: "\<forall>u opts. fetch P u opts = FetchResolved r"
      and sent: "snd (invoke P operation) \<noteq> []" for operation
  proof (cases "is_list_reservations operation")
    case False
    from invoke_sent [OF False sent] all core show ?thesis by auto
  next
    case True
    then obtain params sig where op: "operation = ListReservations params sig"
      by (cases operation) (simp_all add: is_list_reservations_def)
    with sent have "snd (listReservations P params sig) \<noteq> []"
      by (simp add: invoke_def)
    from listReservations_sent [OF this] obtain url where "reservations_url P params = Normal url" ..
    from listReservations_rejected [OF this, of sig] all core op show ?thesis
      by (simp add: invoke_def)
  qed
  from core ops show ?thesis by blast
qed

theorem C1_error_envelope_rejects_witness:
  "fetchJson
     (example_platform
        (FetchResolved \<lparr>status = 500, json = Resolved (JObj [(''error'', JStr ''X'')])\<rparr>))
     (UrlString ''http://localhost:5000/tables'') example_options (JArr [])
     = (Rejected (JObj [(''message'', JStr ''X'')]),
        [Fetch (UrlString ''http://localhost:5000/tables'') example_options, ResponseJson])
   \<and> fst (invoke
        (example_platform
           (FetchResolved \<lparr>status = 500, json = Resolved (JObj [(''error'', JStr ''X'')])\<rparr>))
        (ListTables JUndefined))
     = Returns (Rejected (JObj [(''message'', JStr ''X'')]))"
proof -
  let ?r = "\<lparr>status = 500, json = Resolved (JObj [(''error'', JStr ''X'')])\<rparr>"
  let ?P = "example_platform (FetchResolved ?r)"
  have "status ?r \<noteq> 204" and "json ?r = Resolved (JObj [(''error'', JStr ''X'')])"
    and "map_of [(''error'', JStr ''X'')] ''error'' = Some (JStr ''X'')" and "''X'' \<noteq> []"
    by simp_all
  from C1_error_envelope_rejects [OF this, of ?P]
  show ?thesis
    using listTables_sent [of ?P JUndefined] by (simp add: example_platform_fetch)
qed

theorem C1_no_content_counterexample:
  "fetchJson
     (example_platform
        (FetchResolved \<lparr>status = 204, json = Resolved (JObj [(''error'', JStr ''X'')])\<rparr>))
     (UrlString ''http://localhost:5000/tables'') example_options (JArr [])
     = (Resolved JNull, [Fetch (UrlString ''http://localhost:5000/tables'') example_options])
   \<and> fst (fetchJson
        (example_platform
           (FetchResolved \<lparr>status = 204, json = Resolved (JObj [(''error'', JStr ''X'')])\<rparr>))
        (UrlString ''http://localhost:5000/tables'') example_options (JArr []))
     \<noteq> Rejected (JObj [(''message'', JStr ''X'')])"
  by (simp add: fetchJson_def example_platform_def)

text \<open>
  Claim C2, as amended. For a response with a status other than 204 whose body is an
  object with \<open>data\<close> field \<open>Y\<close> and no truthy \<open>error\<close> field, \<open>fetchJson\<close> resolves to
  \<open>Y\<close>, and so does every operation other than list-reservations that sent its request;
  list-reservations resolves to what the date formatter and then the time formatter make
  of \<open>Y\<close> (and rejects when one of them throws). The counterexample below runs
  list-reservations with formatters that shorten a time to hours and minutes.
\<close>

theorem C2_data_resolves:
  assumes "\<forall>u opts. fetch P u opts = FetchResolved r" and "status r \<noteq> 204"
    and "json r = Resolved (JObj kvs)" and "map_of kvs ''data'' = Some Y"
    and "\<not> truthy (case map_of kvs ''error'' of None \<Rightarrow> JUndefined | Some e \<Rightarrow> e)"
  shows "fetchJson P u opts c = (Resolved Y, [Fetch u opts, ResponseJson])
       \<and> (\<forall>operation. \<not> is_list_reservations operation \<and> snd (invoke P operation) \<noteq> [] \<longrightarrow>
             fst (invoke P operation) = Returns (Resolved Y))
       \<and> (\<forall>params sig. snd (listReservations P params sig) \<noteq> [] \<longrightarrow>
             fst (listReservations P params sig) = Returns (formatted P Y))"
proof -
  have core: "fetchJson P u opts c = (Resolved Y, [Fetch u opts, ResponseJson])" for u opts c
    using assms by (simp add: fetchJson_def)
  have ops: "fst (invoke P operation) = Returns (Resolved Y)"
    if "\<not> is_list_reservations operation" and "snd (invoke P operation) \<noteq> []" for operation
    using invoke_sent [OF that] core by auto
  have lst: "fst (listReservations P params sig) = Returns (formatted P Y)"
    if "snd (listReservations P params sig) \<noteq> []" for params sig
  proof -
    from listReservations_sent [OF that] obtain url where "reservations_url P params = Normal url" ..
    from listReservations_resolved [OF this, of sig Y] core show ?thesis by simp
  qed
  from core ops lst show ?thesis by blast
qed

theorem C2_data_resolves_witness:
  "fetchJson
     (example_platform
        (FetchResolved \<lparr>status = 200,
           json = Resolved (JObj [(''data'', JArr [JObj [(''table_name'', JStr ''Bar'')]])])\<rparr>))
     (UrlString ''http://localhost:5000/tables'') example_options (JArr [])
     = (Resolved (JArr [JObj [(''table_name'', JStr ''Bar'')]]),
        [Fetch (UrlString ''http://localhost:5000/tables'') example_options, ResponseJson])
   \<and> fst (invoke
        (example_platform
           (FetchResolved \<lparr>status = 200,
              json = Resolved (JObj [(''data'', JArr [JObj [(''table_name'', JStr ''Bar'')]])])\<rparr>))
        (ListTables JUndefined))
     = Returns (Resolved (JArr [JObj [(''table_name'', JStr ''Bar'')]]))
   \<and> fst (listReservations
        (example_platform
           (FetchResolved \<lparr>status = 200,
              json = Resolved (JObj [(''data'', JArr [JObj [(''table_name'', JStr ''Bar'')]])])\<rparr>))
        JUndefined JUndefined)
     = Returns (Resolved (JArr [JObj [(''table_name'', JStr ''Bar'')]]))"
proof -
  let ?Y = "JArr [JObj [(''table_name'', JStr ''Bar'')]]"
  let ?r = "\<lparr>status = 200, json = Resolved (JObj [(''data'', ?Y)])\<rparr>"
  let ?P = "example_platform (FetchResolved ?r)"
  have "\<forall>u opts. fetch ?P u opts = FetchResolved ?r" and "status ?r \<noteq> 204"
    and "json ?r = Resolved (JObj [(''data'', ?Y)])"
    and "map_of [(''data'', ?Y)] ''data'' = Some ?Y"
    and "\<not> truthy (case map_of [(''data'', ?Y)] ''error'' of None \<Rightarrow> JUndefined | Some e \<Rightarrow> e)"
    by (simp_all add: example_platform_fetch)
  from C2_data_resolves [OF this]
  show ?thesis
    using listTables_sent [of ?P JUndefined] listReservations_plain_sent [of "FetchResolved ?r" JUndefined]
    by (simp add: is_list_reservations_def formatted_def example_platform_formatters
        spec_formatReservationDate_def spec_formatReservationTime_def normalise_field_def)
qed

theorem C2_list_reservations_counterexample:
  "fst (listReservations
        (example_platform
           (FetchResolved \<lparr>status = 200,
              json = Resolved (JObj [(''data'',
                JArr [JObj [(''reservation_date'', JStr ''2023-01-01''),
                            (''reservation_time'', JStr ''18:30:00'')]])])\<rparr>))
        JUndefined JUndefined)
     = Returns (Resolved
         (JArr [JObj [(''reservation_date'', JStr ''2023-01-01''),
                      (''reservation_time'', JStr ''18:30'')]]))
   \<and> fst (listReservations
        (example_platform
           (FetchResolved \<lparr>status = 200,
              json = Resolved (JObj [(''data'',
                JArr [JObj [(''reservation_date'', JStr ''2023-01-01''),
                            (''reservation_time'', JStr ''18:30:00'')]])])\<rparr>))
        JUndefined JUndefined)
     \<noteq> Returns (Resolved
         (JArr [JObj [(''reservation_date'', JStr ''2023-01-01''),
                      (''reservation_time'', JStr ''18:30:00'')]]))"
  by (simp add: listReservations_built [OF example_reservations_url_plain] Let_def then_call_def
      fetchJson_def example_platform_fetch example_platform_formatters
      spec_formatReservationDate_def spec_formatReservationTime_def normalise_field_def)

text \<open>
  Claim C3. When the failure caught by \<open>fetchJson\<close> is an error named \<open>AbortError\<close>, from
  \<open>fetch\<close> or from reading the body, \<open>fetchJson\<close> does not reject and resolves to the
  fallback it was given. Every operation passes \<open>[]\<close> as the fallback, so every operation
  other than list-reservations that sent its request resolves to \<open>[]\<close>; list-reservations
  hands the fallback to the two imported formatters, settles as they leave it, and so
  resolves to \<open>[]\<close> when they map the empty array to the empty array.
\<close>

theorem C3_cancellation_resolves_to_fallback:
  assumes "get_prop err ''name'' = Normal (JStr ''AbortError'')"
  shows "(fetch P u opts = FetchRejected err \<longrightarrow>
            fetchJson P u opts c = (Resolved c, [Fetch u opts]))
       \<and> (fetch P u opts = FetchResolved r \<and> status r \<noteq> 204 \<and> json r = Rejected err \<longrightarrow>
            fetchJson P u opts c = (Resolved c, [Fetch u opts, ResponseJson]))
       \<and> ((\<forall>u opts. fetch P u opts = FetchRejected err) \<longrightarrow>
            (\<forall>operation. \<not> is_list_reservations operation \<and> snd (invoke P operation) \<noteq> [] \<longrightarrow>
               fst (invoke P operation) = Returns (Resolved (JArr [])))
          \<and> (\<forall>params sig. snd (listReservations P params sig) \<noteq> [] \<longrightarrow>
               fst (listReservations P params sig) = Returns (formatted P (JArr [])))
          \<and> (formatReservationDate P (JArr []) = Normal (JArr []) \<and>
             formatReservationTime P (JArr []) = Normal (JArr []) \<longrightarrow>
               (\<forall>params sig. snd (listReservations P params sig) \<noteq> [] \<longrightarrow>
                  fst (listReservations P params sig) = Returns (Resolved (JArr [])))))"
proof -
  have core: "fetchJson P u opts c = (Resolved c, [Fetch u opts])"
    if "fetch P u opts = FetchRejected err" for u opts c
    using fetchJson_fetch_rejected [OF that] on_catch_abort [OF assms] by (simp add: after_def)
  have body: "fetchJson P u opts c = (Resolved c, [Fetch u opts, ResponseJson])"
    if "fetch P u opts = FetchResolved r" and "status r \<noteq> 204" and "json r = Rejected err"
    using fetchJson_json_rejected [OF that] on_catch_abort [OF assms] by (simp add: after_def)
  have ops: "fst (invoke P operation) = Returns (Resolved (JArr []))"
    if "\<forall>u opts. fetch P u opts = FetchRejected err"
      and "\<not> is_list_reservations operation" and "snd (invoke P operation) \<noteq> []" for operation
    using invoke_sent [OF that(2,3)] core that(1) by auto
  have lst: "fst (listReservations P params sig) = Returns (formatted P (JArr []))"
    if all: "\<forall>u opts. fetch P u opts = FetchRejected err"
      and sent: "snd (listReservations P params sig) \<noteq> []" for params sig
  proof -
    from listReservations_sent [OF sent] obtain url where "reservations_url P params = Normal url" ..
    from listReservations_resolved [OF this, of sig "JArr []"] core all show ?thesis
      by simp
  qed
  have kept: "formatted P (JArr []) = Resolved (JArr [])"
    if "formatReservationDate P (JArr []) = Normal (JArr [])"
      and "formatReservationTime P (JArr []) = Normal (JArr [])"
    using that by (simp add: formatted_def)
  from core body ops lst kept show ?thesis by simp
qed

theorem C3_cancellation_resolves_to_fallback_witness:
  "fetchJson (example_platform (FetchRejected AbortError))
     (UrlString ''http://localhost:5000/tables'') example_options (JArr [])
     = (Resolved (JArr []), [Fetch (UrlString ''http://localhost:5000/tables'') example_options])
   \<and> fst (invoke (example_platform (FetchRejected AbortError)) (ListTables JUndefined))
     = Returns (Resolved (JArr []))
   \<and> fst (listReservations (example_platform (FetchRejected AbortError)) JUndefined JUndefined)
     = Returns (Resolved (JArr []))"
proof -
  let ?P = "example_platform (FetchRejected AbortError)"
  have "get_prop AbortError ''name'' = Normal (JStr ''AbortError'')"
    by (simp add: AbortError_def)
  from C3_cancellation_resolves_to_fallback [OF this, of ?P]
  show ?thesis
    using listTables_sent [of ?P JUndefined]
      listReservations_plain_sent [of "FetchRejected AbortError" JUndefined]
    by (simp add: is_list_reservations_def example_platform_fetch example_platform_formatters
        spec_formatReservationDate_def spec_formatReservationTime_def formatted_def)
qed

text \<open>
  Claim C4. For a response with status 204, \<open>fetchJson\<close> resolves to \<open>null\<close> and
  \<open>response.json()\<close> is never called, whatever the body would have given.
\<close>

theorem C4_no_content_resolves_null:
  assumes "fetch P u opts = FetchResolved r" and "status r = 204"
  shows "fetchJson P u opts c = (Resolved JNull, [Fetch u opts])
       \<and> ResponseJson \<notin> set (snd (fetchJson P u opts c))"
  using fetchJson_status_204 [OF assms] by simp

theorem C4_no_content_resolves_null_witness:
  "fetchJson
     (example_platform
        (FetchResolved \<lparr>status = 204, json = Rejected (TypeError ''Unexpected end of JSON input'')\<rparr>))
     (UrlString ''http://localhost:5000/tables/7/seat'') example_options (JArr [])
     = (Resolved JNull, [Fetch (UrlString ''http://localhost:5000/tables/7/seat'') example_options])
   \<and> ResponseJson \<notin> set (snd (fetchJson
        (example_platform
           (FetchResolved \<lparr>status = 204,
              json = Rejected (TypeError ''Unexpected end of JSON input'')\<rparr>))
        (UrlString ''http://localhost:5000/tables/7/seat'') example_options (JArr [])))"
proof -
  let ?r = "\<lparr>status = 204, json = Rejected (TypeError ''Unexpected end of JSON input'')\<rparr>"
  have "fetch (example_platform (FetchResolved ?r))
          (UrlString ''http://localhost:5000/tables/7/seat'') example_options = FetchResolved ?r"
    and "status ?r = 204"
    by (simp_all add: example_platform_fetch)
  from C4_no_content_resolves_null [OF this] show ?thesis .
qed

text \<open>
  Claim C5. In list-reservations, when the transport core resolves to \<open>v\<close> the date
  formatter is called with \<open>v\<close> first and the time formatter with its result second, the
  promise resolving to the time formatter's result (a throw of either formatter rejects
  the promise and ends the pipeline). When the transport core rejects, list-reservations
  rejects with the same value, its events are those of the transport core, and no
  formatter call is among them.
\<close>

theorem C5_formatting_only_on_success:
  assumes "reservations_url P params = Normal u"
    and "fetchJson P (UrlObject u)
           \<lparr>headers = default_headers, signal = sig, method = ''GET'', body = None\<rparr> (JArr [])
         = (result, trace)"
  shows "(\<forall>v d t. result = Resolved v \<and> formatReservationDate P v = Normal d \<and>
                  formatReservationTime P d = Normal t \<longrightarrow>
            listReservations P params sig =
              (Returns (Resolved t), trace @ [FormatReservationDate v, FormatReservationTime d]))
       \<and> (\<forall>v d e. result = Resolved v \<and> formatReservationDate P v = Normal d \<and>
                  formatReservationTime P d = Throw e \<longrightarrow>
            listReservations P params sig =
              (Returns (Rejected e), trace @ [FormatReservationDate v, FormatReservationTime d]))
       \<and> (\<forall>v e. result = Resolved v \<and> formatReservationDate P v = Throw e \<longrightarrow>
            listReservations P params sig =
              (Returns (Rejected e), trace @ [FormatReservationDate v]))
       \<and> (\<forall>e. result = Rejected e \<longrightarrow>
            listReservations P params sig = (Returns (Rejected e), trace) \<and>
            filter is_format_call (snd (listReservations P params sig)) = [])"
proof -
  have rej: "listReservations P params sig = (Returns (Rejected e), trace)"
    if "result = Rejected e" for e
    using listReservations_rejected [OF assms(1), of sig e] assms(2) that by simp
  have quiet: "filter is_format_call trace = []"
    using fetchJson_no_format_call [of P "UrlObject u" _ "JArr []"] assms(2)
    by (metis snd_conv)
  have res: "listReservations P params sig = (Returns (formatted P v), trace @ format_calls P v)"
    if "result = Resolved v" for v
    using listReservations_resolved [OF assms(1), of sig v] assms(2) that by simp
  from rej quiet res show ?thesis
    by (auto simp: formatted_def format_calls_def)
qed

theorem C5_formatting_only_on_success_witness:
  "listReservations
     (example_platform
        (FetchResolved \<lparr>status = 404, json = Resolved (JObj [(''error'', JStr ''X'')])\<rparr>))
     JUndefined JUndefined
     = (Returns (Rejected (JObj [(''message'', JStr ''X'')])),
        [Fetch (UrlObject \<lparr>address = ''http://localhost:5000/reservations'', searchParams = []\<rparr>)
           example_options,
         ResponseJson])
   \<and> listReservations
     (example_platform
        (FetchResolved \<lparr>status = 200,
           json = Resolved (JObj [(''data'',
             JArr [JObj [(''reservation_date'', JStr ''2023-01-01T00:00:00''),
                         (''reservation_time'', JStr ''18:30:00'')]])])\<rparr>))
     JUndefined JUndefined
     = (Returns (Resolved
          (JArr [JObj [(''reservation_date'', JStr ''2023-01-01''),
                       (''reservation_time'', JStr ''18:30'')]])),
        [Fetch (UrlObject \<lparr>address = ''http://localhost:5000/reservations'', searchParams = []\<rparr>)
           example_options,
         ResponseJson,
         FormatReservationDate
           (JArr [JObj [(''reservation_date'', JStr ''2023-01-01T00:00:00''),
                        (''reservation_time'', JStr ''18:30:00'')]]),
         FormatReservationTime
           (JArr [JObj [(''reservation_date'', JStr ''2023-01-01''),
                        (''reservation_time'', JStr ''18:30:00'')]])])"
proof -
  let ?u = "\<lparr>address = ''http://localhost:5000/reservations'', searchParams = []\<rparr>"
  let ?bad = "FetchResolved \<lparr>status = 404, json = Resolved (JObj [(''error'', JStr ''X'')])\<rparr>"
  let ?Y = "JArr [JObj [(''reservation_date'', JStr ''2023-01-01T00:00:00''),
                        (''reservation_time'', JStr ''18:30:00'')]]"
  let ?good = "FetchResolved \<lparr>status = 200, json = Resolved (JObj [(''data'', ?Y)])\<rparr>"
  have bad: "fetchJson (example_platform ?bad) (UrlObject ?u)
        \<lparr>headers = default_headers, signal = JUndefined, method = ''GET'', body = None\<rparr> (JArr [])
      = (Rejected (JObj [(''message'', JStr ''X'')]), [Fetch (UrlObject ?u) example_options, ResponseJson])"
    by (simp add: fetchJson_def example_platform_fetch example_options_def)
  have good: "fetchJson (example_platform ?good) (UrlObject ?u)
        \<lparr>headers = default_headers, signal = JUndefined, method = ''GET'', body = None\<rparr> (JArr [])
      = (Resolved ?Y, [Fetch (UrlObject ?u) example_options, ResponseJson])"
    by (simp add: fetchJson_def example_platform_fetch example_options_def)
  from C5_formatting_only_on_success [OF example_reservations_url_plain bad]
       C5_formatting_only_on_success [OF example_reservations_url_plain good]
  show ?thesis
    by (simp add: example_platform_formatters spec_formatReservationDate_def
        spec_formatReservationTime_def normalise_field_def)
qed

text \<open>
  Claim C6. When \<open>fetch\<close> rejects, or reading the body of a response rejects, with an error
  whose name is not \<open>AbortError\<close>, \<open>fetchJson\<close> logs the error's stack with
  \<open>console.error\<close> and rejects with that same error; every operation that sent its
  request then rejects with it too.
\<close>

theorem C6_other_failures_rethrown:
  assumes "get_prop err ''name'' = Normal n" and "n \<noteq> JStr ''AbortError''"
  shows "(fetch P u opts = FetchRejected err \<or>
          (\<exists>r. fetch P u opts = FetchResolved r \<and> status r \<noteq> 204 \<and> json r = Rejected err) \<longrightarrow>
            fst (fetchJson P u opts c) = Rejected err \<and>
            (\<exists>s. get_prop err ''stack'' = Normal s \<and>
                 ConsoleError s \<in> set (snd (fetchJson P u opts c))))
       \<and> ((\<forall>u opts. fetch P u opts = FetchRejected err) \<longrightarrow>
            (\<forall>operation. snd (invoke P operation) \<noteq> [] \<longrightarrow>
               fst (invoke P operation) = Returns (Rejected err)))"
proof -
  from on_catch_other [OF assms] obtain s where s: "get_prop err ''stack'' = Normal s"
    by blast
  have oc: "on_catch err c = (Rejected err, [ConsoleError s])" for c
    using assms s by (simp add: on_catch_def)
  have net: "fetchJson P u opts c = (Rejected err, [Fetch u opts, ConsoleError s])"
    if "fetch P u opts = FetchRejected err" for u opts c
    using fetchJson_fetch_rejected [OF that] oc by (simp add: after_def)
  have parse: "fetchJson P u opts c = (Rejected err, [Fetch u opts, ResponseJson, ConsoleError s])"
    if "fetch P u opts = FetchResolved r" and "status r \<noteq> 204" and "json r = Rejected err"
    for r u opts c
    using fetchJson_json_rejected [OF that] oc by (simp add: after_def)
  have ops: "fst (invoke P operation) = Returns (Rejected err)"
    if all: "\<forall>u opts. fetch P u opts = FetchRejected err"
      and sent: "snd (invoke P operation) \<noteq> []" for operation
  proof (cases "is_list_reservations operation")
    case False
    from invoke_sent [OF False sent] all net show ?thesis by auto
  next
    case True
    then obtain params sig where op: "operation = ListReservations params sig"
      by (cases operation) (simp_all add: is_list_reservations_def)
    with sent have "snd (listReservations P params sig) \<noteq> []"
      by (simp add: invoke_def)
    from listReservations_sent [OF this] obtain url where "reservations_url P params = Normal url" ..
    from listReservations_rejected [OF this, of sig] all net op show ?thesis
      by (simp add: invoke_def)
  qed
  from s net parse ops show ?thesis by auto
qed

theorem C6_other_failures_rethrown_witness:
  "fst (fetchJson (example_platform (FetchRejected (TypeError ''Failed to fetch'')))
          (UrlString ''http://localhost:5000/tables'') example_options (JArr []))
     = Rejected (TypeError ''Failed to fetch'')
   \<and> ConsoleError (JStr ''TypeError: Failed to fetch'')
       \<in> set (snd (fetchJson (example_platform (FetchRejected (TypeError ''Failed to fetch'')))
                 (UrlString ''http://localhost:5000/tables'') example_options (JArr [])))
   \<and> fst (invoke (example_platform (FetchRejected (TypeError ''Failed to fetch'')))
            (ListTables JUndefined))
     = Returns (Rejected (TypeError ''Failed to fetch''))"
proof -
  let ?err = "TypeError ''Failed to fetch''"
  let ?P = "example_platform (FetchRejected ?err)"
  have "get_prop ?err ''name'' = Normal (JStr ''TypeError'')"
    and "JStr ''TypeError'' \<noteq> JStr ''AbortError''"
    by (simp_all add: TypeError_def)
  from C6_other_failures_rethrown [OF this, of ?P "UrlString ''http://localhost:5000/tables''"
      example_options "JArr []"]
  show ?thesis
    using listTables_sent [of ?P JUndefined]
    by (auto simp: example_platform_fetch TypeError_def)
qed

text \<open>
  Claim C7. Where the \<open>URL\<close> constructor accepts the reservations address,
  list-reservations with the filter \<open>{date: 2023-05-01}\<close> sends its request to that URL
  with the pair \<open>date=2023-05-01\<close> appended once to its query: the pair occurs once more
  than in the query the constructor found. In general, for a truthy filter each of whose
  values has a string form, the query sent is the constructor's followed by one pair per
  entry, in order: the entry's key with the string form of its value.
\<close>

theorem C7_query_parameters_appended_once:
  assumes "URL_new P (API_BASE_URL P @ ''/reservations'') = Normal u0"
  shows "(\<exists>u opts rest.
            snd (listReservations P (JObj [(''date'', JStr ''2023-05-01'')]) sig)
              = Fetch (UrlObject u) opts # rest
          \<and> address u = address u0
          \<and> searchParams u = searchParams u0 @ [(''date'', ''2023-05-01'')]
          \<and> count_list (searchParams u) (''date'', ''2023-05-01'')
              = Suc (count_list (searchParams u0) (''date'', ''2023-05-01'')))
       \<and> (\<forall>params es strs.
            truthy params \<and> Object_entries params = Normal es \<and>
            list_all2 (\<lambda>kv s. toString_method (snd kv) = Normal s) es strs \<longrightarrow>
            (\<exists>u opts rest.
               snd (listReservations P params sig) = Fetch (UrlObject u) opts # rest
             \<and> address u = address u0
             \<and> searchParams u = searchParams u0 @ zip (map fst es) strs))"
proof -
  have general: "\<exists>u opts rest.
       snd (listReservations P params sig) = Fetch (UrlObject u) opts # rest
     \<and> address u = address u0
     \<and> searchParams u = searchParams u0 @ zip (map fst es) strs"
    if "truthy params" and "Object_entries params = Normal es"
      and "list_all2 (\<lambda>kv s. toString_method (snd kv) = Normal s) es strs"
    for params es strs
  proof -
    let ?u = "u0\<lparr>searchParams := searchParams u0 @ zip (map fst es) strs\<rparr>"
    have "reservations_url P params = Normal ?u"
      using assms that(1,2) append_entries_all [OF that(3), of u0]
      by (simp add: reservations_url_def)
    from listReservations_built [OF this, of sig]
    have "snd (listReservations P params sig) = snd (fetchJson P (UrlObject ?u)
        \<lparr>headers = default_headers, signal = sig, method = ''GET'', body = None\<rparr> (JArr []))
        \<or> (\<exists>more. snd (listReservations P params sig) = snd (fetchJson P (UrlObject ?u)
        \<lparr>headers = default_headers, signal = sig, method = ''GET'', body = None\<rparr> (JArr [])) @ more)"
      by (auto simp: Let_def then_call_def split: settled.splits completion.splits)
    with fetchJson_starts_with_Fetch [of P "UrlObject ?u"
        "\<lparr>headers = default_headers, signal = sig, method = ''GET'', body = None\<rparr>" "JArr []"]
    have "\<exists>opts rest. snd (listReservations P params sig) = Fetch (UrlObject ?u) opts # rest"
      by auto
    then show ?thesis by auto
  qed
  have "list_all2 (\<lambda>kv s. toString_method (snd kv) = Normal s)
          [(''date'', JStr ''2023-05-01'')] [''2023-05-01'']"
    by (simp add: toString_method_def)
  from general [OF _ _ this] have "\<exists>u opts rest.
       snd (listReservations P (JObj [(''date'', JStr ''2023-05-01'')]) sig)
         = Fetch (UrlObject u) opts # rest
     \<and> address u = address u0
     \<and> searchParams u = searchParams u0 @ [(''date'', ''2023-05-01'')]"
    by simp
  with general show ?thesis by auto
qed

theorem C7_query_parameters_appended_once_witness:
  "\<exists>u opts rest.
      snd (listReservations
             (example_platform (FetchResolved \<lparr>status = 200, json = Resolved (JObj [(''data'', JArr [])])\<rparr>))
             (JObj [(''date'', JStr ''2023-05-01'')]) JUndefined)
        = Fetch (UrlObject u) opts # rest
    \<and> address u = ''http://localhost:5000/reservations''
    \<and> searchParams u = [(''date'', ''2023-05-01'')]
    \<and> count_list (searchParams u) (''date'', ''2023-05-01'') = 1"
proof -
  let ?P = "example_platform
    (FetchResolved \<lparr>status = 200, json = Resolved (JObj [(''data'', JArr [])])\<rparr>)"
  have "URL_new ?P (API_BASE_URL ?P @ ''/reservations'')
      = Normal \<lparr>address = ''http://localhost:5000/reservations'', searchParams = []\<rparr>"
    by (simp add: example_platform_def API_BASE_URL_def)
  from C7_query_parameters_appended_once [OF this, of JUndefined, THEN conjunct1]
  show ?thesis by simp
qed

text \<open>
  Claim C8. Every operation, on every platform and for every argument, returns a promise
  and does not throw synchronously, and a failure of any step of its body is the
  rejection of that promise with the value thrown: the \<open>URL\<close> constructor and the
  \<open>toString()\<close> of a filter value in list-reservations (a \<open>null\<close> or \<open>undefined\<close> value
  among them), the template literal of an identifier and \<open>JSON.stringify\<close> in the
  operations that use them; none of these sends a request. Once the request is sent, an
  operation other than list-reservations settles as \<open>fetchJson\<close> does, and
  list-reservations rejects with the rejection of \<open>fetchJson\<close> or with what a formatter
  throws.
\<close>

theorem C8_never_throws_synchronously:
  "(\<exists>promise. fst (invoke P operation) = Returns promise)
   \<and> (URL_new P (API_BASE_URL P @ ''/reservations'') = Throw e \<longrightarrow>
        invoke P (ListReservations params sig) = (Returns (Rejected e), []))
   \<and> (URL_new P (API_BASE_URL P @ ''/reservations'') = Normal u0 \<and> truthy params \<and>
       Object_entries params = Normal (pre @ (k, v) # post) \<and>
       list_all2 (\<lambda>kv s. toString_method (snd kv) = Normal s) pre strs \<and>
       toString_method v = Throw e \<longrightarrow>
        invoke P (ListReservations params sig) = (Returns (Rejected e), []))
   \<and> ((k, JNull) \<in> set kvs \<or> (k, JUndefined) \<in> set kvs \<longrightarrow>
        (\<exists>e'. invoke P (ListReservations (JObj kvs) sig) = (Returns (Rejected e'), [])))
   \<and> (JSON_stringify P (JObj [(''data'', reservation)]) = Throw e \<longrightarrow>
        invoke P (CreateReservation reservation sig) = (Returns (Rejected e), []))
   \<and> (JSON_stringify P (JObj [(''data'', table)]) = Throw e \<longrightarrow>
        invoke P (CreateTable table sig) = (Returns (Rejected e), []))
   \<and> (ToString reservation_id = Throw e \<longrightarrow>
        invoke P (EditReservation reservation_id reservation sig) = (Returns (Rejected e), []) \<and>
        invoke P (UpdateReservationStatus reservation_id st sig) = (Returns (Rejected e), []))
   \<and> (ToString reservation_id = Normal rid \<and>
       JSON_stringify P (JObj [(''data'', reservation)]) = Throw e \<longrightarrow>
        invoke P (EditReservation reservation_id reservation sig) = (Returns (Rejected e), []))
   \<and> (ToString reservation_id = Normal rid \<and>
       JSON_stringify P (JObj [(''data'', JObj [(''status'', st)])]) = Throw e \<longrightarrow>
        invoke P (UpdateReservationStatus reservation_id st sig) = (Returns (Rejected e), []))
   \<and> (ToString table_id = Throw e \<longrightarrow>
        invoke P (SeatReservation reservation_id table_id sig) = (Returns (Rejected e), []) \<and>
        invoke P (FinishTable table_id sig) = (Returns (Rejected e), []))
   \<and> (ToString table_id = Normal tid \<and>
       JSON_stringify P (JObj [(''data'', JObj [(''reservation_id'', reservation_id)])]) = Throw e \<longrightarrow>
        invoke P (SeatReservation reservation_id table_id sig) = (Returns (Rejected e), []))
   \<and> (\<not> is_list_reservations operation \<and> snd (invoke P operation) \<noteq> [] \<longrightarrow>
        (\<exists>u opts. invoke P operation =
           (Returns (fst (fetchJson P u opts (JArr []))), snd (fetchJson P u opts (JArr [])))))
   \<and> (reservations_url P params = Normal u \<and>
       fetchJson P (UrlObject u)
         \<lparr>headers = default_headers, signal = sig, method = ''GET'', body = None\<rparr> (JArr [])
         = (result, trace) \<longrightarrow>
        (result = Rejected e \<longrightarrow>
           invoke P (ListReservations params sig) = (Returns (Rejected e), trace))
      \<and> (result = Resolved w \<and> formatReservationDate P w = Throw e \<longrightarrow>
           fst (invoke P (ListReservations params sig)) = Returns (Rejected e))
      \<and> (result = Resolved w \<and> formatReservationDate P w = Normal d \<and>
          formatReservationTime P d = Throw e \<longrightarrow>
           fst (invoke P (ListReservations params sig)) = Returns (Rejected e)))"
proof -
  have returns: "\<exists>promise. fst (invoke P operation) = Returns promise"
  proof (cases "is_list_reservations operation")
    case False
    from invoke_forwards [OF False, of P] show ?thesis by auto
  next
    case True
    then obtain params sig where "operation = ListReservations params sig"
      by (cases operation) (simp_all add: is_list_reservations_def)
    then show ?thesis
      by (cases "reservations_url P params")
         (simp_all add: invoke_def listReservations_built listReservations_not_built Let_def)
  qed
  have url: "invoke P (ListReservations params sig) = (Returns (Rejected e), [])"
    if "URL_new P (API_BASE_URL P @ ''/reservations'') = Throw e"
    using that by (simp add: invoke_def listReservations_not_built reservations_url_def)
  have entry: "invoke P (ListReservations params sig) = (Returns (Rejected e), [])"
    if "URL_new P (API_BASE_URL P @ ''/reservations'') = Normal u0" and "truthy params"
      and "Object_entries params = Normal (pre @ (k, v) # post)"
      and "list_all2 (\<lambda>kv s. toString_method (snd kv) = Normal s) pre strs"
      and "toString_method v = Throw e"
  proof -
    have "reservations_url P params = Throw e"
      using that(1,2,3) append_entries_first_throw [OF that(4,5), of u0 k post]
      by (simp add: reservations_url_def)
    then show ?thesis by (simp add: invoke_def listReservations_not_built)
  qed
  have nullish: "\<exists>e'. invoke P (ListReservations (JObj kvs) sig) = (Returns (Rejected e'), [])"
    if "(k, JNull) \<in> set kvs \<or> (k, JUndefined) \<in> set kvs"
  proof -
    have "\<exists>e'. reservations_url P (JObj kvs) = Throw e'"
      using append_entries_nullish [OF that]
      by (cases "URL_new P (API_BASE_URL P @ ''/reservations'')")
         (simp_all add: reservations_url_def)
    then show ?thesis
      by (auto simp: invoke_def listReservations_not_built)
  qed
  have create_reservation:
    "invoke P (CreateReservation reservation sig) = (Returns (Rejected e), [])"
    if "JSON_stringify P (JObj [(''data'', reservation)]) = Throw e"
    using that by (simp add: invoke_def createReservation_def async_function_def)
  have create_table: "invoke P (CreateTable table sig) = (Returns (Rejected e), [])"
    if "JSON_stringify P (JObj [(''data'', table)]) = Throw e"
    using that by (simp add: invoke_def createTable_def async_function_def)
  have reservation_id:
    "invoke P (EditReservation reservation_id reservation sig) = (Returns (Rejected e), []) \<and>
     invoke P (UpdateReservationStatus reservation_id st sig) = (Returns (Rejected e), [])"
    if "ToString reservation_id = Throw e"
    using that
    by (simp add: invoke_def editReservation_def updateReservationStatus_def async_function_def)
  have edit_body: "invoke P (EditReservation reservation_id reservation sig) = (Returns (Rejected e), [])"
    if "ToString reservation_id = Normal rid"
      and "JSON_stringify P (JObj [(''data'', reservation)]) = Throw e"
    using that by (simp add: invoke_def editReservation_def async_function_def)
  have status_body:
    "invoke P (UpdateReservationStatus reservation_id st sig) = (Returns (Rejected e), [])"
    if "ToString reservation_id = Normal rid"
      and "JSON_stringify P (JObj [(''data'', JObj [(''status'', st)])]) = Throw e"
    using that by (simp add: invoke_def updateReservationStatus_def async_function_def)
  have table_id:
    "invoke P (SeatReservation reservation_id table_id sig) = (Returns (Rejected e), []) \<and>
     invoke P (FinishTable table_id sig) = (Returns (Rejected e), [])"
    if "ToString table_id = Throw e"
    using that by (simp add: invoke_def seatReservation_def finishTable_def async_function_def)
  have seat_body:
    "invoke P (SeatReservation reservation_id table_id sig) = (Returns (Rejected e), [])"
    if "ToString table_id = Normal tid"
      and "JSON_stringify P (JObj [(''data'', JObj [(''reservation_id'', reservation_id)])]) = Throw e"
    using that by (simp add: invoke_def seatReservation_def async_function_def)
  have forwarded: "\<exists>u opts. invoke P operation =
       (Returns (fst (fetchJson P u opts (JArr []))), snd (fetchJson P u opts (JArr [])))"
    if "\<not> is_list_reservations operation" and "snd (invoke P operation) \<noteq> []"
    using invoke_sent [OF that] .
  have listed:
    "(result = Rejected e \<longrightarrow>
        invoke P (ListReservations params sig) = (Returns (Rejected e), trace))
     \<and> (result = Resolved w \<and> formatReservationDate P w = Throw e \<longrightarrow>
        fst (invoke P (ListReservations params sig)) = Returns (Rejected e))
     \<and> (result = Resolved w \<and> formatReservationDate P w = Normal d \<and>
        formatReservationTime P d = Throw e \<longrightarrow>
        fst (invoke P (ListReservations params sig)) = Returns (Rejected e))"
    if built: "reservations_url P params = Normal u"
      and fj: "fetchJson P (UrlObject u)
         \<lparr>headers = default_headers, signal = sig, method = ''GET'', body = None\<rparr> (JArr [])
         = (result, trace)"
    using listReservations_rejected [OF built, of sig e]
      listReservations_resolved [OF built, of sig w] fj
    by (auto simp: invoke_def formatted_def)
  show ?thesis
  proof (intro conjI)
    show "\<exists>promise. fst (invoke P operation) = Returns promise"
      by (rule returns)
  qed (use url entry nullish create_reservation create_table reservation_id edit_body
        status_body table_id seat_body forwarded listed in blast)+
qed

theorem C8_never_throws_synchronously_witness:
  "invoke (example_platform FetchPending)
     (SeatReservation (JNum 3) (JObj [(''toString'', JNum 1)]) JUndefined)
     = (Returns (Rejected (TypeError ''Cannot convert object to primitive value'')), [])
   \<and> invoke (example_platform FetchPending)
     (ListReservations (JObj [(''date'', JNull)]) JUndefined)
     = (Returns (Rejected (TypeError ''Cannot read properties of null (reading toString)'')), [])
   \<and> invoke
     ((example_platform FetchPending)
        \<lparr>JSON_stringify := \<lambda>v. Throw (TypeError ''Converting circular structure to JSON'')\<rparr>)
     (CreateReservation (JObj []) JUndefined)
     = (Returns (Rejected (TypeError ''Converting circular structure to JSON'')), [])"
proof -
  let ?P = "example_platform FetchPending"
  let ?Q = "?P\<lparr>JSON_stringify := \<lambda>v. Throw (TypeError ''Converting circular structure to JSON'')\<rparr>"
  have seat: "invoke ?P (SeatReservation (JNum 3) (JObj [(''toString'', JNum 1)]) JUndefined)
      = (Returns (Rejected (TypeError ''Cannot convert object to primitive value'')), [])"
    using C8_never_throws_synchronously
      [where P = ?P and table_id = "JObj [(''toString'', JNum 1)]"
         and e = "TypeError ''Cannot convert object to primitive value''"
         and reservation_id = "JNum 3" and sig = JUndefined]
    by simp
  have filter_null: "invoke ?P (ListReservations (JObj [(''date'', JNull)]) JUndefined)
      = (Returns (Rejected (TypeError ''Cannot read properties of null (reading toString)'')), [])"
    using C8_never_throws_synchronously
      [where P = ?P and params = "JObj [(''date'', JNull)]" and sig = JUndefined
         and u0 = "\<lparr>address = ''http://localhost:5000/reservations'', searchParams = []\<rparr>"
         and pre = "[]" and k = "''date''" and v = JNull and post = "[]" and strs = "[]"
         and e = "TypeError ''Cannot read properties of null (reading toString)''"]
    by (simp add: example_platform_def API_BASE_URL_def toString_method_def)
  have body_throws: "invoke ?Q (CreateReservation (JObj []) JUndefined)
      = (Returns (Rejected (TypeError ''Converting circular structure to JSON'')), [])"
    using C8_never_throws_synchronously
      [where P = ?Q and reservation = "JObj []" and sig = JUndefined
         and e = "TypeError ''Converting circular structure to JSON''"]
    by simp
  from seat filter_null body_throws show ?thesis by simp
qed

text \<open>
  Claim C9. For a response with a status other than 204 whose body has both a truthy
  \<open>error\<close> field and a \<open>data\<close> field, \<open>fetchJson\<close> rejects with \<open>{message: error}\<close>: the
  error check comes before the data is read.
\<close>

theorem C9_error_takes_precedence:
  assumes "fetch P u opts = FetchResolved r" and "status r \<noteq> 204"
    and "json r = Resolved (JObj kvs)"
    and "map_of kvs ''error'' = Some err" and "truthy err"
    and "map_of kvs ''data'' = Some d"
  shows "fetchJson P u opts c = (Rejected (JObj [(''message'', err)]), [Fetch u opts, ResponseJson])"
  using fetchJson_payload(1) [OF assms(1,2,3), of err c] assms(4,5) by simp

theorem C9_error_takes_precedence_witness:
  "fetchJson
     (example_platform
        (FetchResolved \<lparr>status = 200,
           json = Resolved (JObj [(''data'', JArr [JNum 1]), (''error'', JStr ''X'')])\<rparr>))
     (UrlString ''http://localhost:5000/tables'') example_options (JArr [])
     = (Rejected (JObj [(''message'', JStr ''X'')]),
        [Fetch (UrlString ''http://localhost:5000/tables'') example_options, ResponseJson])"
proof -
  let ?kvs = "[(''data'', JArr [JNum 1]), (''error'', JStr ''X'')]"
  let ?r = "\<lparr>status = 200, json = Resolved (JObj ?kvs)\<rparr>"
  have "fetch (example_platform (FetchResolved ?r))
          (UrlString ''http://localhost:5000/tables'') example_options = FetchResolved ?r"
    and "status ?r \<noteq> 204" and "json ?r = Resolved (JObj ?kvs)"
    and "map_of ?kvs ''error'' = Some (JStr ''X'')" and "truthy (JStr ''X'')"
    and "map_of ?kvs ''data'' = Some (JArr [JNum 1])"
    by (simp_all add: example_platform_fetch)
  from C9_error_takes_precedence [OF this] show ?thesis .
qed

text \<open>
  Claim C10. When a list-reservations request is cancelled (every \<open>fetch\<close> rejects with an
  error named \<open>AbortError\<close>), the fallback \<open>[]\<close> of the transport core is passed to the date
  formatter and its result to the time formatter: the promise settles as the formatters
  leave \<open>[]\<close>, and both calls are among the events of the run.
\<close>

theorem C10_cancelled_list_is_formatted:
  assumes "\<forall>u opts. fetch P u opts = FetchRejected err"
    and "get_prop err ''name'' = Normal (JStr ''AbortError'')"
    and "reservations_url P params = Normal u"
  shows "listReservations P params sig =
           (Returns (formatted P (JArr [])),
            Fetch (UrlObject u)
              \<lparr>headers = default_headers, signal = sig, method = ''GET'', body = None\<rparr>
            # format_calls P (JArr []))"
proof -
  have "fetchJson P (UrlObject u)
          \<lparr>headers = default_headers, signal = sig, method = ''GET'', body = None\<rparr> (JArr [])
        = (Resolved (JArr []),
           [Fetch (UrlObject u)
              \<lparr>headers = default_headers, signal = sig, method = ''GET'', body = None\<rparr>])"
    using fetchJson_fetch_rejected [OF assms(1) [rule_format]] on_catch_abort [OF assms(2)]
    by (simp add: after_def)
  with listReservations_resolved [OF assms(3), of sig "JArr []"] show ?thesis by simp
qed

theorem C10_cancelled_list_is_formatted_witness:
  "listReservations (example_platform (FetchRejected AbortError))
     (JObj [(''date'', JStr ''2023-05-01'')]) JUndefined
     = (Returns (Resolved (JArr [])),
        [Fetch (UrlObject \<lparr>address = ''http://localhost:5000/reservations'',
                          searchParams = [(''date'', ''2023-05-01'')]\<rparr>)
           example_options,
         FormatReservationDate (JArr []),
         FormatReservationTime (JArr [])])"
proof -
  let ?P = "example_platform (FetchRejected AbortError)"
  have "\<forall>u opts. fetch ?P u opts = FetchRejected AbortError"
    and "get_prop AbortError ''name'' = Normal (JStr ''AbortError'')"
    by (simp_all add: example_platform_fetch AbortError_def)
  from C10_cancelled_list_is_formatted [OF this example_reservations_url_date, of JUndefined]
  show ?thesis
    by (simp add: formatted_def format_calls_def example_platform_formatters example_options_def
        spec_formatReservationDate_def spec_formatReservationTime_def)
qed

end
